theory Spec2Isabelle
  imports Main "HOL-Library.AList" "HOL-Library.Word"
begin

section \<open>Data model of the modmail cog\<close>

text \<open>
  The embedding follows \<^verbatim>\<open>src/modmail/modmail.py\<close>. Discord identifiers
  (snowflakes) are Python ints. A point in time is the number of microseconds since the
  epoch, the resolution of Python's \<^verbatim>\<open>datetime\<close>; \<^verbatim>\<open>timedelta(seconds=n)\<close>
  is \<open>seconds n\<close>. A timestamp the source stores with \<^verbatim>\<open>isoformat()\<close> and
  reads back with \<^verbatim>\<open>fromisoformat\<close> is kept as the time it denotes; the stored
  value \<^verbatim>\<open>None\<close> is \<open>None\<close>.
\<close>

type_synonym snowflake = int
type_synonym time = int

definition seconds :: "int \<Rightarrow> time" where
  "seconds n = n * 1000000"

text \<open>
  A thread id is \<^verbatim>\<open>f"{user_id}-{guild_id}-{uuid.uuid4().hex[:8]}"\<close>: the two ids
  and eight hexadecimal digits, that is 32 random bits. The formatted string determines
  the three components, so the id is kept as the triple. The random draw is an input of
  the model.
\<close>

type_synonym thread_id = "snowflake \<times> snowflake \<times> 32 word"

definition get_thread_id :: "snowflake \<Rightarrow> snowflake \<Rightarrow> 32 word \<Rightarrow> thread_id" where
  "get_thread_id uid gid uuid4 = (uid, gid, uuid4)"

subsection \<open>Configuration records\<close>

text \<open>
  The registered defaults of \<^verbatim>\<open>_init_config\<close>. Every key the source reads with
  \<^verbatim>\<open>.get(key, fallback)\<close> is registered, so the fallback is never used and the
  records are total.
\<close>

record auto_response_cfg =
  ar_enabled :: bool
  ar_message :: string
  ar_embed_enabled :: bool

record thread_settings_cfg =
  auto_close_after :: int
  require_close_reason :: bool
  notify_user_on_close :: bool
  delete_on_close :: bool
  close_confirmation :: bool

record user_requirements_cfg =
  min_account_age :: int
  min_server_age :: int
  require_server_member :: bool
  blocked_new_accounts :: bool

record rate_limiting_cfg =
  rl_enabled :: bool
  max_messages :: int
  time_window :: int
  cooldown_message :: string

record guild_config =
  enabled :: bool
  category_id :: "snowflake option"
  staff_roles :: "snowflake list"
  blocked_users :: "snowflake list"
  auto_response :: auto_response_cfg
  thread_settings :: thread_settings_cfg
  user_requirements :: user_requirements_cfg
  rate_limiting :: rate_limiting_cfg
  anonymous_staff :: bool
  show_user_info :: bool

definition default_guild :: guild_config where
  "default_guild =
     \<lparr> enabled = False, category_id = None, staff_roles = [], blocked_users = [],
       auto_response = \<lparr> ar_enabled = True,
         ar_message = ''Thank you for contacting us! A staff member will be with you shortly.'',
         ar_embed_enabled = False \<rparr>,
       thread_settings = \<lparr> auto_close_after = 7200, require_close_reason = True,
         notify_user_on_close = True, delete_on_close = False, close_confirmation = True \<rparr>,
       user_requirements = \<lparr> min_account_age = 86400, min_server_age = 0,
         require_server_member = False, blocked_new_accounts = False \<rparr>,
       rate_limiting = \<lparr> rl_enabled = True, max_messages = 5, time_window = 300,
         cooldown_message =
           ''You're sending messages too quickly. Please wait before sending another message.'' \<rparr>,
       anonymous_staff = False, show_user_info = True \<rparr>"

record user_data =
  blocked :: bool
  block_reason :: "string option"
  blocked_at :: "time option"
  blocked_by :: "snowflake option"
  total_threads :: int
  last_thread_at :: "time option"
  user_notes :: "string list"

definition default_user :: user_data where
  "default_user =
     \<lparr> blocked = False, block_reason = None, blocked_at = None, blocked_by = None,
       total_threads = 0, last_thread_at = None, user_notes = [] \<rparr>"

subsection \<open>Threads and conversation pointers\<close>

text \<open>
  The status strings \<^verbatim>\<open>"open"\<close>, \<^verbatim>\<open>"closed"\<close>, \<^verbatim>\<open>"archived"\<close> of
  \<^verbatim>\<open>default_thread\<close>. The record holds the keys of \<^verbatim>\<open>default_thread\<close> that
  some function of the source reads or writes; priority, category, staff_assigned, the
  escalation keys, tags, notes and metadata are never touched and are left out. A
  document written with \<^verbatim>\<open>set\<close> lacks the keys its dict lacks, and every read
  of such a key goes through the registered defaults or through \<^verbatim>\<open>.get\<close> of a key
  whose default is \<^verbatim>\<open>None\<close>, so a stored document is the total record with the
  defaults filled in.
\<close>

datatype thread_status = Open | Closed | Archived

record thread =
  user_id :: "snowflake option"
  channel_id :: "snowflake option"
  guild_id :: "snowflake option"
  created_at :: "time option"
  closed_at :: "time option"
  status :: thread_status
  participants :: "snowflake list"
  message_count :: int
  close_reason :: "string option"
  closed_by :: "snowflake option"

definition default_thread :: thread where
  "default_thread =
     \<lparr> user_id = None, channel_id = None, guild_id = None, created_at = None,
       closed_at = None, status = Open, participants = [], message_count = 0,
       close_reason = None, closed_by = None \<rparr>"

record conversation =
  thread_history :: "thread_id list"
  active_thread :: "snowflake option"

definition default_conversation :: conversation where
  "default_conversation = \<lparr> thread_history = [], active_thread = None \<rparr>"

subsection \<open>Discord objects\<close>

record user =
  uid :: snowflake
  uname :: string
  discriminator :: string
  is_bot :: bool
  user_created_at :: time

datatype channel_kind = TextChannel | CategoryChannel | DMChannel

record channel =
  ch_name :: string
  ch_kind :: channel_kind

record message =
  author :: user
  in_dm :: bool
  content :: string
  attachments :: "string list"
  msg_created_at :: time

subsection \<open>Hooks and observable effects\<close>

datatype hook_name = ThreadCreated | MessageProcessed | ThreadClosed | UserBlocked | SnippetUsed

record message_data =
  md_thread_id :: thread_id
  md_user_id :: snowflake
  md_guild_id :: snowflake
  md_content :: string
  md_attachments :: "string list"
  md_timestamp :: time

datatype payload =
    ThreadPayload thread
  | MessagePayload message_data
  | ClosedPayload thread "string option"

text \<open>
  A registered hook is a coroutine of an extension. Awaiting it either returns or raises;
  \<open>Raises e\<close> stands for an exception derived from \<^verbatim>\<open>Exception\<close>, the class
  the handlers of the source name. What an extension does to its own state is not part
  of the cog; the call itself is recorded.
\<close>

datatype hook_outcome = Returns | Raises string

record observer =
  obs_id :: nat
  obs_run :: "payload \<Rightarrow> hook_outcome"

datatype dm =
    AutoResponseText string
  | AutoResponseEmbed string
  | CooldownNotice string
  | ProcessingErrorNotice
  | UnableToCreateNotice
  | ThreadClosedNotice "string option" snowflake

datatype channel_post =
    UserInfoEmbed snowflake
  | ForwardedMessage string "string list"
  | ThreadClosedEmbed snowflake "string option"
  | CommandReply string

datatype modlog_case =
    CaseThreadCreated snowflake snowflake
  | CaseThreadClosed "snowflake option" snowflake string

datatype event =
    HookCalled hook_name nat payload
  | LogError string
  | DirectMessage snowflake dm
  | ChannelPost snowflake channel_post
  | Modlog snowflake modlog_case

subsection \<open>The state of the cog and of the part of Discord it reads\<close>

text \<open>
  \<open>guild_conf\<close>, \<open>user_conf\<close>, \<open>globally_blocked_users\<close>,
  \<open>total_threads_created\<close>, \<open>threads\<close> and \<open>conversations\<close> are the Config
  store; \<open>threads g\<close> is the dict \<^verbatim>\<open>config.custom("Thread", g).all()\<close> in
  insertion order. \<open>hooks\<close> and \<open>rate_limits\<close> are the attributes of the cog; the
  rate-limit key \<^verbatim>\<open>f"{guild_id}:{user_id}"\<close> is the pair it is formatted from.
  \<open>bot_guilds\<close>, \<open>channels\<close>, \<open>members\<close>, \<open>guild_me\<close> and \<open>bot_users\<close>
  are what \<^verbatim>\<open>bot.guilds\<close>, \<^verbatim>\<open>guild.get_channel\<close>, \<^verbatim>\<open>guild.get_member\<close>
  (the member's \<^verbatim>\<open>joined_at\<close>), \<^verbatim>\<open>guild.me\<close> and \<^verbatim>\<open>bot.get_user\<close> answer.
  \<open>trace\<close> lists, oldest first, what the cog sent, logged and called.
\<close>

record world =
  guild_conf :: "snowflake \<Rightarrow> guild_config"
  user_conf :: "snowflake \<Rightarrow> user_data"
  globally_blocked_users :: "snowflake set"
  total_threads_created :: int
  threads :: "snowflake \<Rightarrow> (thread_id \<times> thread) list"
  conversations :: "snowflake \<times> snowflake \<Rightarrow> conversation"
  hooks :: "hook_name \<Rightarrow> observer list"
  rate_limits :: "snowflake \<times> snowflake \<rightharpoonup> time list"
  bot_guilds :: "snowflake list"
  channels :: "snowflake \<Rightarrow> snowflake \<rightharpoonup> channel"
  members :: "snowflake \<Rightarrow> snowflake \<rightharpoonup> time"
  guild_me :: "snowflake \<Rightarrow> snowflake"
  bot_users :: "snowflake \<rightharpoonup> user"
  trace :: "event list"

definition emit :: "event \<Rightarrow> world \<Rightarrow> world" where
  "emit e st = st\<lparr>trace := trace st @ [e]\<rparr>"

section \<open>Rate limiting\<close>

text \<open>
  \<^verbatim>\<open>_is_rate_limited\<close> (lines 297-323). \<open>now\<close> is the reading of
  \<^verbatim>\<open>datetime.utcnow()\<close>. The function returns its answer and the state it leaves:
  the entry of the key is created and trimmed before the limit is checked.
\<close>

definition is_rate_limited :: "world \<Rightarrow> snowflake \<Rightarrow> snowflake \<Rightarrow> time \<Rightarrow> bool \<times> world" where
  "is_rate_limited st user_id' guild_id' now =
     (let rate_config = rate_limiting (guild_conf st guild_id') in
      if \<not> rl_enabled rate_config then (False, st)
      else
        let key = (guild_id', user_id');
            stamps = (case rate_limits st key of None \<Rightarrow> [] | Some ts \<Rightarrow> ts);
            cutoff = now - seconds (time_window rate_config);
            kept = filter (\<lambda>timestamp. timestamp > cutoff) stamps
        in if int (length kept) \<ge> max_messages rate_config
           then (True, st\<lparr>rate_limits := (rate_limits st)(key \<mapsto> kept)\<rparr>)
           else (False, st\<lparr>rate_limits := (rate_limits st)(key \<mapsto> kept @ [now])\<rparr>))"

section \<open>Eligibility and blocking\<close>

text \<open>
  \<^verbatim>\<open>_check_user_requirements\<close> (lines 388-412). \<^verbatim>\<open>total_seconds()\<close> of a
  difference of two times is compared with a whole number of seconds; the comparison is
  made in microseconds.
\<close>

definition check_user_requirements :: "world \<Rightarrow> user \<Rightarrow> snowflake \<Rightarrow> time \<Rightarrow> bool" where
  "check_user_requirements st usr guild now =
     (let requirements = user_requirements (guild_conf st guild);
          min_age = min_account_age requirements
      in if min_age > 0 \<and> now - user_created_at usr < seconds min_age then False
         else if require_server_member requirements then
           (case members st guild (uid usr) of
              None \<Rightarrow> False
            | Some joined_at \<Rightarrow>
                let min_server_age' = min_server_age requirements
                in if min_server_age' > 0 \<and> now - joined_at < seconds min_server_age'
                   then False else True)
         else True)"

text \<open>
  \<^verbatim>\<open>_is_user_blocked\<close> (lines 414-432). The keys of the global block dict are
  \<^verbatim>\<open>str(user_id)\<close>; the set holds the ids. \<^verbatim>\<open>if guild_id:\<close> is false for
  \<^verbatim>\<open>None\<close> and for 0.
\<close>

definition is_user_blocked :: "world \<Rightarrow> snowflake \<Rightarrow> snowflake option \<Rightarrow> bool" where
  "is_user_blocked st user_id' guild_id' =
     (if user_id' \<in> globally_blocked_users st then True
      else if blocked (user_conf st user_id') then True
      else (case guild_id' of
              None \<Rightarrow> False
            | Some g \<Rightarrow> if g = 0 then False
                        else if user_id' \<in> set (blocked_users (guild_conf st g)) then True
                        else False))"

section \<open>Hook dispatch\<close>

text \<open>
  \<^verbatim>\<open>_trigger_hook\<close> (lines 288-294): the loop over the list registered under the
  hook's name, each call inside its own \<^verbatim>\<open>try\<close>; the handler logs and the loop
  goes on.
\<close>

fun run_hooks :: "hook_name \<Rightarrow> payload \<Rightarrow> observer list \<Rightarrow> world \<Rightarrow> world" where
  "run_hooks h p [] st = st"
| "run_hooks h p (hook # rest) st =
     (let st1 = emit (HookCalled h (obs_id hook) p) st;
          st2 = (case obs_run hook p of
                   Returns \<Rightarrow> st1
                 | Raises e \<Rightarrow> emit (LogError e) st1)
      in run_hooks h p rest st2)"

definition trigger_hook :: "world \<Rightarrow> hook_name \<Rightarrow> payload \<Rightarrow> world" where
  "trigger_hook st h p = run_hooks h p (hooks st h) st"

section \<open>Thread documents\<close>

text \<open>
  \<open>thread_doc\<close> is \<^verbatim>\<open>config.custom("Thread", guild_id, thread_id).all()\<close>: the
  stored document, or the registered defaults when nothing is stored under the id.
  \<^verbatim>\<open>_update_thread_data\<close> (lines 641-644) opens that value as a context manager,
  which writes the whole value back on exit when it differs from what was read; a key of
  a dict keeps its position, a new key goes last.
\<close>

definition thread_doc :: "world \<Rightarrow> snowflake \<Rightarrow> thread_id \<Rightarrow> thread" where
  "thread_doc st g tid = (case map_of (threads st g) tid of None \<Rightarrow> default_thread | Some d \<Rightarrow> d)"

definition update_thread_data :: "world \<Rightarrow> thread_id \<Rightarrow> snowflake \<Rightarrow> (thread \<Rightarrow> thread) \<Rightarrow> world" where
  "update_thread_data st tid g updates =
     (let thread_data = thread_doc st g tid;
          updated = updates thread_data
      in if updated = thread_data then st
         else st\<lparr>threads := (threads st)(g := AList.update tid updated (threads st g))\<rparr>)"

section \<open>Thread creation and lookup\<close>

text \<open>
  What \<^verbatim>\<open>category.create_text_channel\<close> does is Discord's answer, an input of the
  model: the id of the new channel, \<^verbatim>\<open>discord.Forbidden\<close>, or another exception.
\<close>

datatype create_result = Created snowflake | CreateForbidden | CreateFailed string

text \<open>
  \<^verbatim>\<open>_create_new_thread\<close> (lines 494-555). The result is the channel (its id) or
  \<^verbatim>\<open>None\<close>. The staff-role overwrites only shape the request to Discord. The new
  channel is named \<^verbatim>\<open>modmail-{user.name}-{user.discriminator}\<close>.
  \<open>new_thread_doc\<close> is the dict of lines 529-536.
\<close>

definition new_thread_doc :: "snowflake \<Rightarrow> snowflake \<Rightarrow> snowflake \<Rightarrow> time \<Rightarrow> thread" where
  "new_thread_doc u cid g now =
     default_thread\<lparr> user_id := Some u, channel_id := Some cid, guild_id := Some g,
       created_at := Some now, status := Open, participants := [u] \<rparr>"

definition create_new_thread ::
  "world \<Rightarrow> user \<Rightarrow> snowflake \<Rightarrow> thread_id \<Rightarrow> create_result \<Rightarrow> time \<Rightarrow> snowflake option \<times> world" where
  "create_new_thread st usr guild tid created now =
     (case category_id (guild_conf st guild) of
        None \<Rightarrow> (None, emit (LogError ''No modmail category set'') st)
      | Some cat \<Rightarrow>
          if cat = 0 then (None, emit (LogError ''No modmail category set'') st)
          else
            (case channels st guild cat of
               None \<Rightarrow> (None, emit (LogError ''Invalid modmail category'') st)
             | Some category \<Rightarrow>
                 if ch_kind category = CategoryChannel then
                   (case created of
                      CreateForbidden \<Rightarrow>
                        (None, emit (LogError ''No permission to create modmail channel'') st)
                    | CreateFailed e \<Rightarrow>
                        (None, emit (LogError e) st)
                    | Created cid \<Rightarrow>
                        let st1 = st\<lparr>channels := (channels st)(guild := (channels st guild)(cid \<mapsto>
                                     \<lparr> ch_name = ''modmail-'' @ uname usr @ ''-'' @ discriminator usr,
                                       ch_kind = TextChannel \<rparr>))\<rparr>;
                            thread_data = new_thread_doc (uid usr) cid guild now;
                            st2 = st1\<lparr>threads :=
                                     (threads st1)(guild := AList.update tid thread_data (threads st1 guild))\<rparr>;
                            st3 = st2\<lparr>conversations :=
                                     (conversations st2)((guild, uid usr) :=
                                        (conversations st2 (guild, uid usr))\<lparr>active_thread := Some cid\<rparr>)\<rparr>;
                            st4 = st3\<lparr>total_threads_created := total_threads_created st3 + 1\<rparr>;
                            st5 = trigger_hook st4 ThreadCreated (ThreadPayload thread_data)
                        in (Some cid, st5))
                 else (None, emit (LogError ''Invalid modmail category'') st)))"

text \<open>
  \<^verbatim>\<open>_get_or_create_thread\<close> (lines 476-488). \<open>uuid4\<close> is the draw of the call of
  \<^verbatim>\<open>_get_thread_id\<close> on line 478.
\<close>

definition get_or_create_thread ::
  "world \<Rightarrow> user \<Rightarrow> snowflake \<Rightarrow> 32 word \<Rightarrow> create_result \<Rightarrow> time \<Rightarrow> snowflake option \<times> world" where
  "get_or_create_thread st usr guild uuid4 created now =
     (let thread_id = get_thread_id (uid usr) guild uuid4 in
      case active_thread (conversations st (guild, uid usr)) of
        None \<Rightarrow> create_new_thread st usr guild thread_id created now
      | Some existing_thread \<Rightarrow>
          if existing_thread = 0 then create_new_thread st usr guild thread_id created now
          else
            (case channels st guild existing_thread of
               None \<Rightarrow> create_new_thread st usr guild thread_id created now
             | Some ch \<Rightarrow> (Some existing_thread, st)))"

section \<open>Processing an inbound message\<close>

text \<open>\<^verbatim>\<open>_send_auto_response\<close> (lines 616-639) and \<^verbatim>\<open>_log_thread_created\<close> (lines 646-658).\<close>

definition send_auto_response :: "world \<Rightarrow> user \<Rightarrow> snowflake \<Rightarrow> world" where
  "send_auto_response st usr guild =
     (let config = auto_response (guild_conf st guild) in
      if \<not> ar_enabled config then st
      else if ar_embed_enabled config
        then emit (DirectMessage (uid usr) (AutoResponseEmbed (ar_message config))) st
        else emit (DirectMessage (uid usr) (AutoResponseText (ar_message config))) st)"

definition log_thread_created :: "world \<Rightarrow> user \<Rightarrow> snowflake \<Rightarrow> snowflake \<Rightarrow> world" where
  "log_thread_created st usr guild ch = emit (Modlog guild (CaseThreadCreated (uid usr) ch)) st"

text \<open>
  Sending to Discord is outside the cog. The sends are taken to succeed, except the
  forwarding of the user's message into the thread channel, whose failure is an input:
  it is the exception the handler of lines 382-386 is there for.
\<close>

datatype transport = TransportOk | TransportRaises string

datatype route_result =
    Ignored
  | NoTarget
  | Blocked
  | RateLimited
  | ProvisioningFailed
  | Delivered thread_id
  | DeliveryFailed

text \<open>
  \<^verbatim>\<open>_process_modmail_message\<close> (lines 434-474). \<open>uuid_a\<close> is the draw inside
  \<^verbatim>\<open>_get_or_create_thread\<close>, \<open>uuid_b\<close> the draw of the second call of
  \<^verbatim>\<open>_get_thread_id\<close>, on line 443. A raised exception comes with the state at the
  raise. \<open>Delivered\<close> carries the thread id the function works with, the one it puts
  into the \<^verbatim>\<open>message_processed\<close> payload.
\<close>

definition process_modmail_message ::
  "world \<Rightarrow> message \<Rightarrow> snowflake \<Rightarrow> 32 word \<Rightarrow> 32 word \<Rightarrow> create_result \<Rightarrow> transport \<Rightarrow> time
     \<Rightarrow> (string \<times> world) + (route_result \<times> world)" where
  "process_modmail_message st msg guild uuid_a uuid_b created forward now =
     (case get_or_create_thread st (author msg) guild uuid_a created now of
        (None, st1) \<Rightarrow>
          Inr (ProvisioningFailed, emit (DirectMessage (uid (author msg)) UnableToCreateNotice) st1)
      | (Some thread_channel, st1) \<Rightarrow>
          let thread_id = get_thread_id (uid (author msg)) guild uuid_b;
              thread_data = thread_doc st1 guild thread_id
          in (case forward of
                TransportRaises e \<Rightarrow> Inl (e, st1)
              | TransportOk \<Rightarrow>
                  let st2 = emit (ChannelPost thread_channel (UserInfoEmbed (uid (author msg)))) st1;
                      st3 = emit (ChannelPost thread_channel
                                    (ForwardedMessage (content msg) (attachments msg))) st2;
                      st4 = update_thread_data st3 thread_id guild
                              (\<lambda>d. d\<lparr>message_count := message_count thread_data + 1\<rparr>);
                      st5 = (if message_count thread_data = 0
                             then send_auto_response st4 (author msg) guild else st4);
                      message_data = \<lparr> md_thread_id = thread_id, md_user_id = uid (author msg),
                                       md_guild_id = guild, md_content = content msg,
                                       md_attachments = attachments msg,
                                       md_timestamp = msg_created_at msg \<rparr>;
                      st6 = trigger_hook st5 MessageProcessed (MessagePayload message_data);
                      st7 = (if message_count thread_data = 0
                             then log_thread_created st6 (author msg) guild thread_channel else st6)
                  in Inr (Delivered thread_id, st7)))"

text \<open>
  \<^verbatim>\<open>on_message_without_command\<close> (lines 344-386). \<open>eligible_guilds\<close> is the
  loop of lines 355-364. The listener returns nothing; the result names the exit it took.
\<close>

definition eligible_guilds :: "world \<Rightarrow> user \<Rightarrow> time \<Rightarrow> snowflake list" where
  "eligible_guilds st usr now =
     filter (\<lambda>guild. enabled (guild_conf st guild) \<and> check_user_requirements st usr guild now)
       (bot_guilds st)"

definition on_message_without_command ::
  "world \<Rightarrow> message \<Rightarrow> 32 word \<Rightarrow> 32 word \<Rightarrow> create_result \<Rightarrow> transport \<Rightarrow> time
     \<Rightarrow> route_result \<times> world" where
  "on_message_without_command st msg uuid_a uuid_b created forward now =
     (if \<not> in_dm msg then (Ignored, st)
      else if is_bot (author msg) then (Ignored, st)
      else
        (case eligible_guilds st (author msg) now of
           [] \<Rightarrow> (NoTarget, st)
         | target_guild # others \<Rightarrow>
             if is_user_blocked st (uid (author msg)) (Some target_guild) then (Blocked, st)
             else
               (case is_rate_limited st (uid (author msg)) target_guild now of
                  (True, st1) \<Rightarrow>
                    (RateLimited,
                     emit (DirectMessage (uid (author msg))
                        (CooldownNotice (cooldown_message (rate_limiting (guild_conf st1 target_guild))))) st1)
                | (False, st1) \<Rightarrow>
                    (case process_modmail_message st1 msg target_guild uuid_a uuid_b created forward now of
                       Inl (e, st2) \<Rightarrow>
                         (DeliveryFailed,
                          emit (DirectMessage (uid (author msg)) ProcessingErrorNotice)
                            (emit (LogError e) st2))
                     | Inr (res, st2) \<Rightarrow> (res, st2)))))"

section \<open>Closing a thread\<close>

text \<open>
  \<^verbatim>\<open>_is_modmail_channel\<close> (line 890), and the search both
  \<^verbatim>\<open>_get_thread_data_from_channel\<close> (lines 892-901) and \<^verbatim>\<open>_close_thread\<close>
  (lines 908-912) make: the first document of the guild whose channel_id is the channel's.
\<close>

definition is_modmail_channel :: "channel \<Rightarrow> bool" where
  "is_modmail_channel ch = (take 8 (ch_name ch) = ''modmail-'')"

definition thread_of_channel :: "world \<Rightarrow> snowflake \<Rightarrow> snowflake \<Rightarrow> (thread_id \<times> thread) option" where
  "thread_of_channel st g cid = find (\<lambda>entry. channel_id (snd entry) = Some cid) (threads st g)"

definition get_thread_data_from_channel :: "world \<Rightarrow> snowflake \<Rightarrow> snowflake \<Rightarrow> thread option" where
  "get_thread_data_from_channel st g cid = map_option snd (thread_of_channel st g cid)"

text \<open>
  \<^verbatim>\<open>_close_thread\<close> (lines 903-995), called with a channel of guild \<open>g\<close>, the
  closer, the reason and the caller's copy of the thread document. The Discord calls
  succeed, so the handler of lines 993-995 is not entered. \<^verbatim>\<open>asyncio.sleep(5)\<close>
  changes nothing. \<open>closing_update\<close> is the dict \<^verbatim>\<open>updates\<close> of lines 915-920,
  applied to a document. The hook gets the caller's copy with closed_by and close_reason
  set.
\<close>

definition closing_update :: "snowflake \<Rightarrow> string option \<Rightarrow> time \<Rightarrow> thread \<Rightarrow> thread" where
  "closing_update closer reason now d =
     d\<lparr> status := Closed, closed_at := Some now, close_reason := reason, closed_by := Some closer \<rparr>"

definition close_thread ::
  "world \<Rightarrow> snowflake \<Rightarrow> snowflake \<Rightarrow> snowflake \<Rightarrow> string option \<Rightarrow> thread \<Rightarrow> time \<Rightarrow> world" where
  "close_thread st g cid closer reason thread_data now =
     (let st1 = (case thread_of_channel st g cid of
                   None \<Rightarrow> st
                 | Some (thread_id, d) \<Rightarrow>
                     update_thread_data st thread_id g (closing_update closer reason now));
          config = thread_settings (guild_conf st1 g);
          st2 = (if notify_user_on_close config then
                   (case user_id thread_data of
                      None \<Rightarrow> st1
                    | Some u \<Rightarrow>
                        if u = 0 then st1
                        else (case bot_users st1 u of
                                None \<Rightarrow> st1
                              | Some usr \<Rightarrow>
                                  emit (DirectMessage u (ThreadClosedNotice reason closer)) st1))
                 else st1);
          st3 = emit (ChannelPost cid (ThreadClosedEmbed closer reason)) st2;
          st4 = (case user_id thread_data of
                   None \<Rightarrow> st3
                 | Some u \<Rightarrow>
                     if u = 0 then st3
                     else st3\<lparr>conversations :=
                            (conversations st3)((g, u) :=
                               (conversations st3 (g, u))\<lparr>active_thread := None\<rparr>)\<rparr>);
          st5 = (if delete_on_close config
                 then st4\<lparr>channels := (channels st4)(g := (channels st4 g)(cid := None))\<rparr>
                 else st4\<lparr>channels := (channels st4)(g := (channels st4 g)(cid :=
                        map_option (\<lambda>ch. ch\<lparr>ch_name := ''closed-'' @ ch_name ch\<rparr>)
                          (channels st4 g cid)))\<rparr>);
          st6 = emit (Modlog g (CaseThreadClosed (user_id thread_data) closer
                   (case reason of None \<Rightarrow> ''No reason provided''
                    | Some r \<Rightarrow> if r = [] then ''No reason provided'' else r))) st5
      in trigger_hook st6 ThreadClosed
           (ClosedPayload (thread_data\<lparr>closed_by := Some closer, close_reason := reason\<rparr>) reason))"

text \<open>
  \<^verbatim>\<open>modmail close\<close> (lines 837-885), invoked by \<open>invoker\<close> in channel \<open>cid\<close> of
  guild \<open>g\<close>. \<open>react\<close> is what the invoker does with the confirmation prompt. A
  command is invoked in a channel that exists; for an id that resolves to nothing the
  model answers as for a channel that is not a modmail channel.
\<close>

datatype reaction = ReactYes | ReactNo | ReactTimeout

datatype close_result =
    NotModmailChannel
  | ThreadDataMissing
  | ValidationError
  | CloseCancelled
  | CloseTimedOut
  | CloseDone

definition modmail_close ::
  "world \<Rightarrow> snowflake \<Rightarrow> snowflake \<Rightarrow> snowflake \<Rightarrow> string option \<Rightarrow> reaction \<Rightarrow> time
     \<Rightarrow> close_result \<times> world" where
  "modmail_close st g cid invoker reason react now =
     (case channels st g cid of
        None \<Rightarrow> (NotModmailChannel, st)
      | Some ch \<Rightarrow>
          if \<not> is_modmail_channel ch then
            (NotModmailChannel,
             emit (ChannelPost cid (CommandReply ''This command can only be used in modmail threads.'')) st)
          else
            (case get_thread_data_from_channel st g cid of
               None \<Rightarrow>
                 (ThreadDataMissing, emit (ChannelPost cid (CommandReply ''Could not find thread data.'')) st)
             | Some thread_data \<Rightarrow>
                 let config = thread_settings (guild_conf st g) in
                 if require_close_reason config \<and> (reason = None \<or> reason = Some [])
                 then (ValidationError,
                       emit (ChannelPost cid
                               (CommandReply ''Please provide a reason for closing this thread.'')) st)
                 else if close_confirmation config then
                   (let st1 = emit (ChannelPost cid (CommandReply ''Close Thread?'')) st in
                    case react of
                      ReactNo \<Rightarrow>
                        (CloseCancelled,
                         emit (ChannelPost cid (CommandReply ''Thread close cancelled.'')) st1)
                    | ReactTimeout \<Rightarrow>
                        (CloseTimedOut,
                         emit (ChannelPost cid (CommandReply ''Thread close cancelled (timed out).'')) st1)
                    | ReactYes \<Rightarrow>
                        (CloseDone, close_thread st1 g cid invoker reason thread_data now))
                 else (CloseDone, close_thread st g cid invoker reason thread_data now)))"

section \<open>The idle sweep\<close>

text \<open>
  \<^verbatim>\<open>_auto_close_threads\<close> (lines 1394-1425). The inner loop runs over the snapshot
  \<^verbatim>\<open>all_threads\<close> read before it; \<^verbatim>\<open>datetime.fromisoformat(None)\<close> raises
  \<^verbatim>\<open>TypeError\<close>, which nothing inside the function catches. \<open>now\<close> is the clock
  reading of the sweep.
\<close>

fun auto_close_loop ::
  "world \<Rightarrow> snowflake \<Rightarrow> time \<Rightarrow> time \<Rightarrow> (thread_id \<times> thread) list \<Rightarrow> (string \<times> world) + world" where
  "auto_close_loop st guild cutoff_time now [] = Inr st"
| "auto_close_loop st guild cutoff_time now ((thread_id, thread_data) # rest) =
     (if status thread_data = Open then
        (case created_at thread_data of
           None \<Rightarrow> Inl (''TypeError'', st)
         | Some created \<Rightarrow>
             if created < cutoff_time then
               (case channel_id thread_data of
                  None \<Rightarrow> auto_close_loop st guild cutoff_time now rest
                | Some cid \<Rightarrow>
                    (case channels st guild cid of
                       None \<Rightarrow> auto_close_loop st guild cutoff_time now rest
                     | Some ch \<Rightarrow>
                         auto_close_loop
                           (close_thread st guild cid (guild_me st guild)
                              (Some ''Auto-closed due to inactivity'') thread_data now)
                           guild cutoff_time now rest))
             else auto_close_loop st guild cutoff_time now rest)
      else auto_close_loop st guild cutoff_time now rest)"

fun auto_close_guilds :: "world \<Rightarrow> time \<Rightarrow> snowflake list \<Rightarrow> (string \<times> world) + world" where
  "auto_close_guilds st now [] = Inr st"
| "auto_close_guilds st now (guild # rest) =
     (let config = guild_conf st guild;
          auto_close_time = auto_close_after (thread_settings config)
      in if \<not> enabled config then auto_close_guilds st now rest
         else if auto_close_time \<le> 0 then auto_close_guilds st now rest
         else
           (case auto_close_loop st guild (now - seconds auto_close_time) now (threads st guild) of
              Inl err \<Rightarrow> Inl err
            | Inr st1 \<Rightarrow> auto_close_guilds st1 now rest))"

definition auto_close_threads :: "world \<Rightarrow> time \<Rightarrow> (string \<times> world) + world" where
  "auto_close_threads st now = auto_close_guilds st now (bot_guilds st)"

text \<open>\<^verbatim>\<open>cleanup_task\<close> (lines 1385-1392) logs what the sweep raises.\<close>

definition cleanup_task :: "world \<Rightarrow> time \<Rightarrow> world" where
  "cleanup_task st now =
     (case auto_close_threads st now of
        Inl (e, st1) \<Rightarrow> emit (LogError e) st1
      | Inr st1 \<Rightarrow> st1)"

section \<open>Reading states and traces\<close>

text \<open>
  \<open>with_stamps st g u ts\<close> is \<open>st\<close> with \<open>ts\<close> as the rate-limit list of the key
  of guild \<open>g\<close> and user \<open>u\<close>. \<open>new_events st st'\<close> is what \<open>st'\<close> has sent,
  logged and called since \<open>st\<close>.
\<close>

definition with_stamps :: "world \<Rightarrow> snowflake \<Rightarrow> snowflake \<Rightarrow> time list \<Rightarrow> world" where
  "with_stamps st g u ts = st\<lparr>rate_limits := (rate_limits st)((g, u) \<mapsto> ts)\<rparr>"

definition new_events :: "world \<Rightarrow> world \<Rightarrow> event list" where
  "new_events st st' = drop (length (trace st)) (trace st')"

fun hook_calls :: "event list \<Rightarrow> (hook_name \<times> nat) list" where
  "hook_calls [] = []"
| "hook_calls (HookCalled h i p # es) = (h, i) # hook_calls es"
| "hook_calls (e # es) = hook_calls es"

fun logged_errors :: "event list \<Rightarrow> string list" where
  "logged_errors [] = []"
| "logged_errors (LogError e # es) = e # logged_errors es"
| "logged_errors (e # es) = logged_errors es"

fun direct_messages :: "event list \<Rightarrow> (snowflake \<times> dm) list" where
  "direct_messages [] = []"
| "direct_messages (DirectMessage u m # es) = (u, m) # direct_messages es"
| "direct_messages (e # es) = direct_messages es"

text \<open>What \<open>send_auto_response\<close> sends to user \<open>u\<close> under the configuration of guild \<open>g\<close>.\<close>

definition auto_response_dms :: "world \<Rightarrow> snowflake \<Rightarrow> snowflake \<Rightarrow> (snowflake \<times> dm) list" where
  "auto_response_dms st g u =
     (let config = auto_response (guild_conf st g) in
      if \<not> ar_enabled config then []
      else if ar_embed_enabled config then [(u, AutoResponseEmbed (ar_message config))]
      else [(u, AutoResponseText (ar_message config))])"

text \<open>
  What one dispatch adds to the trace, written from the contract of the dispatcher:
  every observer of the list, in order, is called, and a failure is logged after the
  call.
\<close>

definition hook_events :: "hook_name \<Rightarrow> payload \<Rightarrow> observer list \<Rightarrow> event list" where
  "hook_events h p obs =
     concat (map (\<lambda>ob. HookCalled h (obs_id ob) p #
                    (case obs_run ob p of Returns \<Rightarrow> [] | Raises e \<Rightarrow> [LogError e])) obs)"


definition dated :: "(thread_id \<times> thread) list \<Rightarrow> bool" where
  "dated docs =
     list_all (\<lambda>entry. if status (snd entry) = Open
                        then (case created_at (snd entry) of None \<Rightarrow> False | Some t \<Rightarrow> True)
                        else True) docs"

definition sweep_ready :: "world \<Rightarrow> snowflake \<Rightarrow> bool" where
  "sweep_ready st g =
     (if enabled (guild_conf st g) \<and> 0 < auto_close_after (thread_settings (guild_conf st g))
      then dated (threads st g) else True)"


section \<open>Example states\<close>

text \<open>
  One guild, 100, with modmail enabled, the category channel 500 and otherwise the
  registered defaults; the bot is member 1 of it. User 7 has an account older than a
  day. Every hook has two observers: observer 2, registered first, raises; observer 1
  returns.
\<close>

definition alice :: user where
  "alice = \<lparr> uid = 7, uname = ''alice'', discriminator = ''0001'', is_bot = False,
             user_created_at = 0 \<rparr>"

definition quiet_observer :: observer where
  "quiet_observer = \<lparr> obs_id = 1, obs_run = (\<lambda>p. Returns) \<rparr>"

definition faulty_observer :: observer where
  "faulty_observer = \<lparr> obs_id = 2, obs_run = (\<lambda>p. Raises ''boom'') \<rparr>"

definition example_world :: world where
  "example_world =
     \<lparr> guild_conf = (\<lambda>g. default_guild)(100 := default_guild\<lparr>enabled := True, category_id := Some 500\<rparr>),
       user_conf = (\<lambda>u. default_user),
       globally_blocked_users = {},
       total_threads_created = 0,
       threads = (\<lambda>g. []),
       conversations = (\<lambda>k. default_conversation),
       hooks = (\<lambda>h. [faulty_observer, quiet_observer]),
       rate_limits = Map.empty,
       bot_guilds = [100],
       channels = (\<lambda>g. Map.empty)(100 := [500 \<mapsto> \<lparr> ch_name = ''Modmail'', ch_kind = CategoryChannel \<rparr>]),
       members = (\<lambda>g. Map.empty),
       guild_me = (\<lambda>g. 1),
       bot_users = [7 \<mapsto> alice],
       trace = [] \<rparr>"

definition dm_from :: "user \<Rightarrow> string \<Rightarrow> time \<Rightarrow> message" where
  "dm_from usr txt t =
     \<lparr> author = usr, in_dm = True, content = txt, attachments = [], msg_created_at = t \<rparr>"

text \<open>The state after user 7's first message, sent at second 100000 and put into channel 900.\<close>

definition after_first_message :: world where
  "after_first_message =
     snd (on_message_without_command example_world (dm_from alice ''hello'' (seconds 100000))
            1 2 (Created 900) TransportOk (seconds 100000))"

text \<open>
  Variants of the example: rate limiting switched off; membership required with a
  minimum server age of an hour; user 7 blocked in the user record.
\<close>

definition unlimited_world :: world where
  "unlimited_world =
     example_world\<lparr>guild_conf := (\<lambda>g. default_guild\<lparr>rate_limiting :=
        (rate_limiting default_guild)\<lparr>rl_enabled := False\<rparr>\<rparr>)\<rparr>"

definition members_only_world :: world where
  "members_only_world =
     example_world\<lparr>guild_conf := (\<lambda>g. default_guild\<lparr>enabled := True, user_requirements :=
        (user_requirements default_guild)\<lparr>require_server_member := True, min_server_age := 3600\<rparr>\<rparr>)\<rparr>"

definition blocked_world :: world where
  "blocked_world = example_world\<lparr>user_conf := (\<lambda>u. default_user)(7 := default_user\<lparr>blocked := True\<rparr>)\<rparr>"

text \<open>
  The state after user 7's second message, a minute later. Then the thread as stored
  after the first message, the state after a staff member, 42, has closed it, and the
  state after a second close of the same channel by the bot.
\<close>

definition after_second_message :: world where
  "after_second_message =
     snd (on_message_without_command after_first_message (dm_from alice ''again'' (seconds 100060))
            3 4 (Created 901) TransportOk (seconds 100060))"

definition first_thread :: thread where
  "first_thread = new_thread_doc 7 900 100 (seconds 100000)"

definition after_close :: world where
  "after_close =
     close_thread after_first_message 100 900 42 (Some ''resolved'') first_thread (seconds 100200)"

definition after_second_close :: world where
  "after_second_close =
     close_thread after_close 100 900 1 (Some ''Auto-closed due to inactivity'') first_thread
       (seconds 110000)"


section \<open>Properties of the rate limiter\<close>

lemma with_stamps_simps:
  "guild_conf (with_stamps st g u ts) = guild_conf st"
  "rate_limits (with_stamps st g u ts) (g, u) = Some ts"
  "with_stamps (with_stamps st g u ts) g u ts' = with_stamps st g u ts'"
  by (simp_all add: with_stamps_def)

lemma is_rate_limited_enabled:
  assumes "rl_enabled (rate_limiting (guild_conf st g))"
  shows "is_rate_limited st u g now =
     (let kept = filter (\<lambda>t. now - seconds (time_window (rate_limiting (guild_conf st g))) < t)
                   (case rate_limits st (g, u) of None \<Rightarrow> [] | Some ts \<Rightarrow> ts)
      in if max_messages (rate_limiting (guild_conf st g)) \<le> int (length kept)
         then (True, with_stamps st g u kept)
         else (False, with_stamps st g u (kept @ [now])))"
  using assms by (simp add: is_rate_limited_def with_stamps_def Let_def)

lemma is_rate_limited_disabled:
  "\<not> rl_enabled (rate_limiting (guild_conf st g)) \<Longrightarrow> is_rate_limited st u g now = (False, st)"
  by (simp add: is_rate_limited_def)

lemma stale_dropped:
  assumes "\<forall>t \<in> set xs. t \<le> (c::int)"
  shows "filter (\<lambda>t. c < t) xs = []"
  using assms by (induction xs) auto

text \<open>
  Claim C4. Rate limiting enabled with max_messages = 5 and time_window = 300, and a key
  whose stored timestamps, if any, are older than the window at \<open>t1\<close>. Six checks at
  times \<open>t1 \<le> ... \<le> t6\<close> in one window (\<open>t6 < t1 + 300 s\<close>): the first five answer
  not limited and each appends its time to the list of the key; the sixth answers
  limited and leaves the list as it is. A check at \<open>t7\<close>, when the window that
  started at \<open>t1\<close> has passed, answers not limited. With rate limiting disabled the check
  answers not limited and changes nothing.
\<close>

theorem rate_limit_window:
  fixes st st' :: world
  assumes en: "rl_enabled (rate_limiting (guild_conf st g))"
      and mx: "max_messages (rate_limiting (guild_conf st g)) = 5"
      and tw: "time_window (rate_limiting (guild_conf st g)) = 300"
      and stale: "\<forall>t \<in> set (case rate_limits st (g, u) of None \<Rightarrow> [] | Some ts \<Rightarrow> ts).
                    t \<le> t1 - seconds 300"
      and ord: "t1 \<le> t2" "t2 \<le> t3" "t3 \<le> t4" "t4 \<le> t5" "t5 \<le> t6"
      and win: "t6 < t1 + seconds 300"
      and late: "t1 + seconds 300 \<le> t7"
      and dis: "\<not> rl_enabled (rate_limiting (guild_conf st' g'))"
  shows "is_rate_limited st u g t1 = (False, with_stamps st g u [t1])
       \<and> is_rate_limited (with_stamps st g u [t1]) u g t2 = (False, with_stamps st g u [t1, t2])
       \<and> is_rate_limited (with_stamps st g u [t1, t2]) u g t3
           = (False, with_stamps st g u [t1, t2, t3])
       \<and> is_rate_limited (with_stamps st g u [t1, t2, t3]) u g t4
           = (False, with_stamps st g u [t1, t2, t3, t4])
       \<and> is_rate_limited (with_stamps st g u [t1, t2, t3, t4]) u g t5
           = (False, with_stamps st g u [t1, t2, t3, t4, t5])
       \<and> is_rate_limited (with_stamps st g u [t1, t2, t3, t4, t5]) u g t6
           = (True, with_stamps st g u [t1, t2, t3, t4, t5])
       \<and> fst (is_rate_limited (with_stamps st g u [t1, t2, t3, t4, t5]) u g t7) = False
       \<and> is_rate_limited st' u' g' t' = (False, st')"
proof -
  have c1: "is_rate_limited st u g t1 = (False, with_stamps st g u [t1])"
    using stale_dropped[OF stale] by (simp add: is_rate_limited_enabled[OF en] mx tw)
  have en': "\<And>ts. rl_enabled (rate_limiting (guild_conf (with_stamps st g u ts) g))"
    using en by (simp add: with_stamps_simps)
  have step: "\<And>ts now. is_rate_limited (with_stamps st g u ts) u g now =
     (let kept = filter (\<lambda>t. now - seconds 300 < t) ts
      in if 5 \<le> int (length kept)
         then (True, with_stamps st g u kept)
         else (False, with_stamps st g u (kept @ [now])))"
    by (simp add: is_rate_limited_enabled[OF en'] with_stamps_simps mx tw Let_def)
  have c2: "is_rate_limited (with_stamps st g u [t1]) u g t2 = (False, with_stamps st g u [t1, t2])"
    using ord win by (simp add: step)
  have c3: "is_rate_limited (with_stamps st g u [t1, t2]) u g t3
           = (False, with_stamps st g u [t1, t2, t3])"
    using ord win by (simp add: step)
  have c4: "is_rate_limited (with_stamps st g u [t1, t2, t3]) u g t4
           = (False, with_stamps st g u [t1, t2, t3, t4])"
    using ord win by (simp add: step)
  have c5: "is_rate_limited (with_stamps st g u [t1, t2, t3, t4]) u g t5
           = (False, with_stamps st g u [t1, t2, t3, t4, t5])"
    using ord win by (simp add: step)
  have c6: "is_rate_limited (with_stamps st g u [t1, t2, t3, t4, t5]) u g t6
           = (True, with_stamps st g u [t1, t2, t3, t4, t5])"
    using ord win by (simp add: step)
  have "length (filter (\<lambda>t. t7 - seconds 300 < t) [t2, t3, t4, t5]) \<le> 4"
    using length_filter_le[of "\<lambda>t. t7 - seconds 300 < t" "[t2, t3, t4, t5]"] by simp
  then have c7: "fst (is_rate_limited (with_stamps st g u [t1, t2, t3, t4, t5]) u g t7) = False"
    using late by (simp add: step Let_def)
  show ?thesis using c1 c2 c3 c4 c5 c6 c7 is_rate_limited_disabled[OF dis] by simp
qed

theorem rate_limit_window_witness:
  "is_rate_limited example_world 7 100 (seconds 1000)
     = (False, with_stamps example_world 100 7 [seconds 1000])
   \<and> is_rate_limited
       (with_stamps example_world 100 7
          [seconds 1000, seconds 1010, seconds 1020, seconds 1030, seconds 1040])
       7 100 (seconds 1299)
     = (True, with_stamps example_world 100 7
          [seconds 1000, seconds 1010, seconds 1020, seconds 1030, seconds 1040])
   \<and> fst (is_rate_limited
       (with_stamps example_world 100 7
          [seconds 1000, seconds 1010, seconds 1020, seconds 1030, seconds 1040])
       7 100 (seconds 1300)) = False
   \<and> is_rate_limited unlimited_world 7 100 (seconds 1000) = (False, unlimited_world)"
proof -
  have en: "rl_enabled (rate_limiting (guild_conf example_world 100))"
    and mx: "max_messages (rate_limiting (guild_conf example_world 100)) = 5"
    and tw: "time_window (rate_limiting (guild_conf example_world 100)) = 300"
    by (simp_all add: example_world_def default_guild_def)
  have stale: "\<forall>t \<in> set (case rate_limits example_world (100, 7) of None \<Rightarrow> [] | Some ts \<Rightarrow> ts).
                 t \<le> seconds 1000 - seconds 300"
    by (simp add: example_world_def)
  have ord: "seconds 1000 \<le> seconds 1010" "seconds 1010 \<le> seconds 1020"
    "seconds 1020 \<le> seconds 1030" "seconds 1030 \<le> seconds 1040" "seconds 1040 \<le> seconds 1299"
    and win: "seconds 1299 < seconds 1000 + seconds 300"
    and late: "seconds 1000 + seconds 300 \<le> seconds 1300"
    by (simp_all add: seconds_def)
  have dis: "\<not> rl_enabled (rate_limiting (guild_conf unlimited_world 100))"
    by (simp add: unlimited_world_def default_guild_def)
  show ?thesis
    using rate_limit_window[OF en mx tw stale ord win late dis, of 7 "seconds 1000"] by simp
qed

section \<open>Properties of the hook dispatcher\<close>

lemma run_hooks_trace:
  "run_hooks h p obs st = st\<lparr>trace := trace st @ hook_events h p obs\<rparr>"
  by (induction obs arbitrary: st)
     (simp_all add: hook_events_def emit_def Let_def split: hook_outcome.split)

lemma trigger_hook_trace:
  "trigger_hook st h p = st\<lparr>trace := trace st @ hook_events h p (hooks st h)\<rparr>"
  by (simp add: trigger_hook_def run_hooks_trace)

lemma hook_calls_append: "hook_calls (xs @ ys) = hook_calls xs @ hook_calls ys"
  by (induction xs rule: hook_calls.induct) simp_all

lemma logged_errors_append: "logged_errors (xs @ ys) = logged_errors xs @ logged_errors ys"
  by (induction xs rule: logged_errors.induct) simp_all

lemma direct_messages_append: "direct_messages (xs @ ys) = direct_messages xs @ direct_messages ys"
  by (induction xs rule: direct_messages.induct) simp_all

lemma hook_calls_hook_events:
  "hook_calls (hook_events h p obs) = map (\<lambda>ob. (h, obs_id ob)) obs"
  by (induction obs) (simp_all add: hook_events_def split: hook_outcome.split)


lemma direct_messages_hook_events: "direct_messages (hook_events h p obs) = []"
  by (induction obs) (simp_all add: hook_events_def split: hook_outcome.split)


section \<open>Properties of eligibility and blocking\<close>

text \<open>
  Claim C10. When require_server_member is false, the eligibility check is the account
  age check alone: its answer does not change with min_server_age or with who is a
  member of the guild. When require_server_member is true, the user must also be a
  member, and, for a positive min_server_age, have joined at least that long ago.
\<close>

theorem server_age_checked_only_for_required_members:
  fixes st :: world
  shows "(\<not> require_server_member (user_requirements (guild_conf st g)) \<longrightarrow>
            check_user_requirements st usr g now =
              (\<not> (0 < min_account_age (user_requirements (guild_conf st g))
                  \<and> now - user_created_at usr
                      < seconds (min_account_age (user_requirements (guild_conf st g)))))
          \<and> check_user_requirements
               (st\<lparr> guild_conf := (guild_conf st)(g := (guild_conf st g)
                       \<lparr> user_requirements := (user_requirements (guild_conf st g))\<lparr>min_server_age := m\<rparr> \<rparr>),
                     members := mem \<rparr>) usr g now
              = check_user_requirements st usr g now)
       \<and> (require_server_member (user_requirements (guild_conf st g)) \<longrightarrow>
            check_user_requirements st usr g now =
              (\<not> (0 < min_account_age (user_requirements (guild_conf st g))
                  \<and> now - user_created_at usr
                      < seconds (min_account_age (user_requirements (guild_conf st g))))
               \<and> (case members st g (uid usr) of
                     None \<Rightarrow> False
                   | Some joined \<Rightarrow>
                       \<not> (0 < min_server_age (user_requirements (guild_conf st g))
                          \<and> now - joined
                              < seconds (min_server_age (user_requirements (guild_conf st g)))))))"
  by (auto simp add: check_user_requirements_def Let_def split: option.splits)

theorem server_age_checked_only_for_required_members_witness:
  "check_user_requirements example_world alice 100 (seconds 100000)
   \<and> check_user_requirements
        (example_world\<lparr> guild_conf := (guild_conf example_world)(100 := (guild_conf example_world 100)
             \<lparr> user_requirements :=
                 (user_requirements (guild_conf example_world 100))\<lparr>min_server_age := 999999\<rparr> \<rparr>),
           members := (\<lambda>g. Map.empty) \<rparr>) alice 100 (seconds 100000)
   \<and> \<not> check_user_requirements members_only_world alice 100 (seconds 100000)"
proof -
  have off: "\<not> require_server_member (user_requirements (guild_conf example_world 100))"
    by (simp add: example_world_def default_guild_def)
  have on: "require_server_member (user_requirements (guild_conf members_only_world 100))"
    by (simp add: members_only_world_def example_world_def default_guild_def)
  have age: "\<not> (0 < min_account_age (user_requirements (guild_conf example_world 100))
                \<and> seconds 100000 - user_created_at alice
                    < seconds (min_account_age (user_requirements (guild_conf example_world 100))))"
    by (simp add: example_world_def default_guild_def alice_def seconds_def)
  have nomember: "members members_only_world 100 (uid alice) = None"
    by (simp add: members_only_world_def example_world_def)
  show ?thesis
    using server_age_checked_only_for_required_members
            [where st = example_world and g = 100 and usr = alice and now = "seconds 100000"
               and m = 999999 and mem = "\<lambda>g. Map.empty"]
          server_age_checked_only_for_required_members
            [where st = members_only_world and g = 100 and usr = alice and now = "seconds 100000"]
          off on age nomember
    by simp
qed

lemma blocked_everywhere:
  "is_user_blocked st u None \<Longrightarrow> is_user_blocked st u (Some g)"
  by (simp add: is_user_blocked_def split: if_splits)

text \<open>
  Claim C8. A direct message of a user who is not a bot. If the user is blocked for the
  target guild (by the global block list, by the user record, or by the guild's block
  list), the target being the first eligible guild, the listener leaves at the block
  check and the whole state is as before: no thread document is written, no hook is
  called, nothing is sent to the user or logged, and the rate limiter does not count the
  message. If the user is blocked by the global list or the user record, that is for
  every guild, the state is as before whatever the guilds are: the listener leaves at
  the block check, or before it when no guild is eligible.
\<close>

theorem blocked_user_is_dropped_silently:
  assumes "in_dm msg" and "\<not> is_bot (author msg)"
  shows "(eligible_guilds st (author msg) now = target # others
            \<and> is_user_blocked st (uid (author msg)) (Some target)
          \<longrightarrow> on_message_without_command st msg uuid_a uuid_b created forward now = (Blocked, st))
       \<and> (is_user_blocked st (uid (author msg)) None
          \<longrightarrow> on_message_without_command st msg uuid_a uuid_b created forward now
                = (if eligible_guilds st (author msg) now = [] then NoTarget else Blocked, st))"
  using assms
  by (cases "eligible_guilds st (author msg) now")
     (simp_all add: on_message_without_command_def blocked_everywhere)

theorem blocked_user_is_dropped_silently_witness:
  "on_message_without_command blocked_world (dm_from alice ''hello'' (seconds 100000))
     1 2 (Created 900) TransportOk (seconds 100000) = (Blocked, blocked_world)"
proof -
  have dm: "in_dm (dm_from alice ''hello'' (seconds 100000))"
    and nobot: "\<not> is_bot (author (dm_from alice ''hello'' (seconds 100000)))"
    by (simp_all add: dm_from_def alice_def)
  have el: "eligible_guilds blocked_world (author (dm_from alice ''hello'' (seconds 100000)))
              (seconds 100000) = 100 # []"
    by (simp add: eligible_guilds_def check_user_requirements_def blocked_world_def
          example_world_def default_guild_def dm_from_def alice_def seconds_def)
  have bl: "is_user_blocked blocked_world (uid (author (dm_from alice ''hello'' (seconds 100000))))
              (Some 100)"
    and bl': "is_user_blocked blocked_world (uid (author (dm_from alice ''hello'' (seconds 100000))))
              None"
    by (simp_all add: is_user_blocked_def blocked_world_def example_world_def default_user_def
          dm_from_def alice_def)
  show ?thesis
    using blocked_user_is_dropped_silently[OF dm nobot, of blocked_world "seconds 100000" 100 "[]"
            1 2 "Created 900" TransportOk] el bl bl'
    by simp
qed

section \<open>Properties of thread creation and message processing\<close>

lemma update_fresh: "map_of al k = None \<Longrightarrow> AList.update k v al = al @ [(k, v)]"
  by (induction al) (auto split: if_splits)

lemma map_of_snoc_other:
  "map_of al k = None \<Longrightarrow> k \<noteq> k' \<Longrightarrow> map_of (al @ [(k', v)]) k = None"
  by (induction al) auto

lemma update_thread_data_fresh:
  assumes "map_of (threads st g) tid = None" and "updates default_thread \<noteq> default_thread"
  shows "update_thread_data st tid g updates =
           st\<lparr>threads := (threads st)(g := threads st g @ [(tid, updates default_thread)])\<rparr>"
  using assms by (simp add: update_thread_data_def thread_doc_def Let_def update_fresh)

lemma create_new_thread_created:
  assumes "category_id (guild_conf st g) = Some cat" and "cat \<noteq> 0"
      and "channels st g cat = Some category" and "ch_kind category = CategoryChannel"
  shows "create_new_thread st usr g tid (Created cid) now =
     (Some cid,
      st\<lparr> channels := (channels st)(g := (channels st g)(cid \<mapsto>
              \<lparr> ch_name = ''modmail-'' @ uname usr @ ''-'' @ discriminator usr,
                ch_kind = TextChannel \<rparr>)),
          threads := (threads st)(g := AList.update tid (new_thread_doc (uid usr) cid g now)
              (threads st g)),
          conversations := (conversations st)((g, uid usr) :=
              (conversations st (g, uid usr))\<lparr>active_thread := Some cid\<rparr>),
          total_threads_created := total_threads_created st + 1,
          trace := trace st @ hook_events ThreadCreated
              (ThreadPayload (new_thread_doc (uid usr) cid g now)) (hooks st ThreadCreated) \<rparr>)"
  using assms by (simp add: create_new_thread_def trigger_hook_def run_hooks_trace Let_def)





lemma send_auto_response_trace:
  "send_auto_response st usr g =
     st\<lparr>trace := trace st @ map (\<lambda>(u, m). DirectMessage u m) (auto_response_dms st g (uid usr))\<rparr>"
  by (simp add: send_auto_response_def auto_response_dms_def emit_def Let_def)

lemma direct_messages_map:
  "direct_messages (map (\<lambda>(u, m). DirectMessage u m) xs) = xs"
  by (induction xs) auto

lemma hook_calls_dms: "hook_calls (map (\<lambda>(u, m). DirectMessage u m) xs) = []"
  by (induction xs) auto

lemma auto_response_dms_cong:
  "guild_conf st' = guild_conf st \<Longrightarrow> auto_response_dms st' g u = auto_response_dms st g u"
  by (simp add: auto_response_dms_def)

lemma process_with_channel:
  assumes goc: "get_or_create_thread st (author msg) g uuid_a created now = (Some c, st1)"
      and fresh: "map_of (threads st1 g) (get_thread_id (uid (author msg)) g uuid_b) = None"
  shows "process_modmail_message st msg g uuid_a uuid_b created TransportOk now =
     Inr (Delivered (get_thread_id (uid (author msg)) g uuid_b),
          st1\<lparr> threads := (threads st1)(g := threads st1 g @
                  [(get_thread_id (uid (author msg)) g uuid_b, default_thread\<lparr>message_count := 1\<rparr>)]),
              trace := trace st1 @
                  [ChannelPost c (UserInfoEmbed (uid (author msg))),
                   ChannelPost c (ForwardedMessage (content msg) (attachments msg))]
                  @ map (\<lambda>(u, m). DirectMessage u m) (auto_response_dms st1 g (uid (author msg)))
                  @ hook_events MessageProcessed
                      (MessagePayload \<lparr> md_thread_id = get_thread_id (uid (author msg)) g uuid_b,
                          md_user_id = uid (author msg), md_guild_id = g, md_content = content msg,
                          md_attachments = attachments msg, md_timestamp = msg_created_at msg \<rparr>)
                      (hooks st1 MessageProcessed)
                  @ [Modlog g (CaseThreadCreated (uid (author msg)) c)] \<rparr>)"
proof -
  have doc: "thread_doc st1 g (get_thread_id (uid (author msg)) g uuid_b) = default_thread"
    using fresh by (simp add: thread_doc_def)
  show ?thesis
    unfolding process_modmail_message_def goc
    using fresh
    by (simp add: doc Let_def emit_def update_thread_data_fresh send_auto_response_trace
          trigger_hook_trace log_thread_created_def auto_response_dms_def default_thread_def)
qed

lemma get_or_create_existing:
  assumes "active_thread (conversations st (g, uid usr)) = Some c" and "c \<noteq> 0"
      and "channels st g c = Some ch"
  shows "get_or_create_thread st usr g uuid_a created now = (Some c, st)"
  using assms by (simp add: get_or_create_thread_def)

lemma get_or_create_new:
  assumes noptr: "active_thread (conversations st (g, uid usr)) = None"
      and cat: "category_id (guild_conf st g) = Some cat" "cat \<noteq> 0"
               "channels st g cat = Some category" "ch_kind category = CategoryChannel"
      and fresh_a: "map_of (threads st g) (get_thread_id (uid usr) g uuid_a) = None"
  shows "get_or_create_thread st usr g uuid_a (Created cid) now =
     (Some cid,
      st\<lparr> channels := (channels st)(g := (channels st g)(cid \<mapsto>
              \<lparr> ch_name = ''modmail-'' @ uname usr @ ''-'' @ discriminator usr,
                ch_kind = TextChannel \<rparr>)),
          threads := (threads st)(g := threads st g @
              [(get_thread_id (uid usr) g uuid_a, new_thread_doc (uid usr) cid g now)]),
          conversations := (conversations st)((g, uid usr) :=
              (conversations st (g, uid usr))\<lparr>active_thread := Some cid\<rparr>),
          total_threads_created := total_threads_created st + 1,
          trace := trace st @ hook_events ThreadCreated
              (ThreadPayload (new_thread_doc (uid usr) cid g now)) (hooks st ThreadCreated) \<rparr>)"
  using noptr
  by (simp add: get_or_create_thread_def create_new_thread_created[OF cat]
        update_fresh[OF fresh_a])

lemma is_rate_limited_frame:
  "snd (is_rate_limited st u g now) = st\<lparr>rate_limits := rate_limits (snd (is_rate_limited st u g now))\<rparr>"
  by (simp add: is_rate_limited_def Let_def)

lemma rate_limit_frame_facts:
  "threads (snd (is_rate_limited st u g now)) = threads st"
  "trace (snd (is_rate_limited st u g now)) = trace st"
  "hooks (snd (is_rate_limited st u g now)) = hooks st"
  "conversations (snd (is_rate_limited st u g now)) = conversations st"
  "guild_conf (snd (is_rate_limited st u g now)) = guild_conf st"
  "channels (snd (is_rate_limited st u g now)) = channels st"
  "total_threads_created (snd (is_rate_limited st u g now)) = total_threads_created st"
  by (subst is_rate_limited_frame, simp)+

lemma on_message_delivers:
  assumes "in_dm msg" and "\<not> is_bot (author msg)"
      and "eligible_guilds st (author msg) now = g # others"
      and "\<not> is_user_blocked st (uid (author msg)) (Some g)"
      and "\<not> fst (is_rate_limited st (uid (author msg)) g now)"
      and "process_modmail_message (snd (is_rate_limited st (uid (author msg)) g now)) msg g
             uuid_a uuid_b created forward now = Inr res"
  shows "on_message_without_command st msg uuid_a uuid_b created forward now = res"
  using assms
  by (cases "is_rate_limited st (uid (author msg)) g now"; cases res)
     (simp add: on_message_without_command_def)

lemma listener_new_thread:
  assumes dm: "in_dm msg" "\<not> is_bot (author msg)"
      and el: "eligible_guilds st (author msg) now = g # others"
      and nb: "\<not> is_user_blocked st (uid (author msg)) (Some g)"
      and nl: "\<not> fst (is_rate_limited st (uid (author msg)) g now)"
      and noptr: "active_thread (conversations st (g, uid (author msg))) = None"
      and cat: "category_id (guild_conf st g) = Some cat" "cat \<noteq> 0"
               "channels st g cat = Some category" "ch_kind category = CategoryChannel"
      and fresh_a: "map_of (threads st g) (get_thread_id (uid (author msg)) g uuid_a) = None"
      and fresh_b: "map_of (threads st g) (get_thread_id (uid (author msg)) g uuid_b) = None"
      and neq: "uuid_a \<noteq> uuid_b"
  shows "on_message_without_command st msg uuid_a uuid_b (Created cid) TransportOk now =
     (Delivered (get_thread_id (uid (author msg)) g uuid_b),
      (snd (is_rate_limited st (uid (author msg)) g now))
        \<lparr> channels := (channels st)(g := (channels st g)(cid \<mapsto>
              \<lparr> ch_name = ''modmail-'' @ uname (author msg) @ ''-'' @ discriminator (author msg),
                ch_kind = TextChannel \<rparr>)),
          threads := (threads st)(g := threads st g @
              [(get_thread_id (uid (author msg)) g uuid_a,
                new_thread_doc (uid (author msg)) cid g now),
               (get_thread_id (uid (author msg)) g uuid_b, default_thread\<lparr>message_count := 1\<rparr>)]),
          conversations := (conversations st)((g, uid (author msg)) :=
              (conversations st (g, uid (author msg)))\<lparr>active_thread := Some cid\<rparr>),
          total_threads_created := total_threads_created st + 1,
          trace := trace st
              @ hook_events ThreadCreated
                  (ThreadPayload (new_thread_doc (uid (author msg)) cid g now))
                  (hooks st ThreadCreated)
              @ [ChannelPost cid (UserInfoEmbed (uid (author msg))),
                 ChannelPost cid (ForwardedMessage (content msg) (attachments msg))]
              @ map (\<lambda>(u, m). DirectMessage u m) (auto_response_dms st g (uid (author msg)))
              @ hook_events MessageProcessed
                  (MessagePayload \<lparr> md_thread_id = get_thread_id (uid (author msg)) g uuid_b,
                      md_user_id = uid (author msg), md_guild_id = g, md_content = content msg,
                      md_attachments = attachments msg, md_timestamp = msg_created_at msg \<rparr>)
                  (hooks st MessageProcessed)
              @ [Modlog g (CaseThreadCreated (uid (author msg)) cid)] \<rparr>)"
proof -
  define st1 where "st1 = snd (is_rate_limited st (uid (author msg)) g now)"
  note eqs = rate_limit_frame_facts[of st "uid (author msg)" g now, folded st1_def]
  note goc = get_or_create_new[of st1 g "author msg" cat category uuid_a cid now,
             unfolded eqs, OF noptr cat fresh_a]
  have fresh_b': "map_of
      (threads (snd (get_or_create_thread st1 (author msg) g uuid_a (Created cid) now)) g)
      (get_thread_id (uid (author msg)) g uuid_b) = None"
  proof -
    have ne: "get_thread_id (uid (author msg)) g uuid_b \<noteq> get_thread_id (uid (author msg)) g uuid_a"
      using neq by (simp add: get_thread_id_def)
    show ?thesis unfolding goc using ne fresh_b by simp
  qed
  have p0: "get_or_create_thread st1 (author msg) g uuid_a (Created cid) now =
     (Some cid, snd (get_or_create_thread st1 (author msg) g uuid_a (Created cid) now))"
    unfolding goc by simp
  note p = process_with_channel[OF p0 fresh_b']
  show ?thesis
    apply (rule on_message_delivers[OF dm el nb nl])
    apply (simp only: st1_def[symmetric] p)
    apply (simp add: goc auto_response_dms_def eqs)
    done
qed

text \<open>
  Claim C2, what the code does instead. A user without an active thread sends a direct
  message that passes the eligibility, block and rate-limit checks, to a guild whose
  category is configured, and Discord creates the channel. Unless the two draws of a
  thread id coincide or hit a stored id, the listener appends two documents: the thread,
  under the id of the first draw, with message_count 0, and a document under the id of
  the second draw with message_count 1 and no user. The result names the second id. The
  \<^verbatim>\<open>thread_created\<close> hooks are called before the \<^verbatim>\<open>message_processed\<close> hooks,
  and the auto-response is sent.
\<close>

theorem first_message_counts_on_a_second_document:
  assumes dm: "in_dm msg" "\<not> is_bot (author msg)"
      and el: "eligible_guilds st (author msg) now = g # others"
      and nb: "\<not> is_user_blocked st (uid (author msg)) (Some g)"
      and nl: "\<not> fst (is_rate_limited st (uid (author msg)) g now)"
      and noptr: "active_thread (conversations st (g, uid (author msg))) = None"
      and cat: "category_id (guild_conf st g) = Some cat" "cat \<noteq> 0"
               "channels st g cat = Some category" "ch_kind category = CategoryChannel"
      and fresh_a: "map_of (threads st g) (get_thread_id (uid (author msg)) g uuid_a) = None"
      and fresh_b: "map_of (threads st g) (get_thread_id (uid (author msg)) g uuid_b) = None"
      and neq: "uuid_a \<noteq> uuid_b"
  shows "case on_message_without_command st msg uuid_a uuid_b (Created cid) TransportOk now of
           (r, st') \<Rightarrow>
             r = Delivered (get_thread_id (uid (author msg)) g uuid_b)
           \<and> threads st' g = threads st g @
                 [(get_thread_id (uid (author msg)) g uuid_a,
                   new_thread_doc (uid (author msg)) cid g now),
                  (get_thread_id (uid (author msg)) g uuid_b, default_thread\<lparr>message_count := 1\<rparr>)]
           \<and> message_count (new_thread_doc (uid (author msg)) cid g now) = 0
           \<and> hook_calls (new_events st st')
                 = map (\<lambda>ob. (ThreadCreated, obs_id ob)) (hooks st ThreadCreated)
                   @ map (\<lambda>ob. (MessageProcessed, obs_id ob)) (hooks st MessageProcessed)
           \<and> direct_messages (new_events st st') = auto_response_dms st g (uid (author msg))
           \<and> active_thread (conversations st' (g, uid (author msg))) = Some cid"
  unfolding listener_new_thread[OF assms]
  by (simp add: new_events_def hook_calls_append
        hook_calls_hook_events hook_calls_dms direct_messages_append direct_messages_map
        direct_messages_hook_events new_thread_doc_def default_thread_def)

lemma listener_existing_thread:
  assumes dm: "in_dm msg" "\<not> is_bot (author msg)"
      and el: "eligible_guilds st (author msg) now = g # others"
      and nb: "\<not> is_user_blocked st (uid (author msg)) (Some g)"
      and nl: "\<not> fst (is_rate_limited st (uid (author msg)) g now)"
      and ptr: "active_thread (conversations st (g, uid (author msg))) = Some c" "c \<noteq> 0"
               "channels st g c = Some ch"
      and fresh: "map_of (threads st g) (get_thread_id (uid (author msg)) g uuid_b) = None"
  shows "on_message_without_command st msg uuid_a uuid_b created TransportOk now =
     (Delivered (get_thread_id (uid (author msg)) g uuid_b),
      (snd (is_rate_limited st (uid (author msg)) g now))
        \<lparr> threads := (threads st)(g := threads st g @
              [(get_thread_id (uid (author msg)) g uuid_b, default_thread\<lparr>message_count := 1\<rparr>)]),
          trace := trace st @
              [ChannelPost c (UserInfoEmbed (uid (author msg))),
               ChannelPost c (ForwardedMessage (content msg) (attachments msg))]
              @ map (\<lambda>(u, m). DirectMessage u m) (auto_response_dms st g (uid (author msg)))
              @ hook_events MessageProcessed
                  (MessagePayload \<lparr> md_thread_id = get_thread_id (uid (author msg)) g uuid_b,
                      md_user_id = uid (author msg), md_guild_id = g, md_content = content msg,
                      md_attachments = attachments msg, md_timestamp = msg_created_at msg \<rparr>)
                  (hooks st MessageProcessed)
              @ [Modlog g (CaseThreadCreated (uid (author msg)) c)] \<rparr>)"
proof -
  define st1 where "st1 = snd (is_rate_limited st (uid (author msg)) g now)"
  note eqs = rate_limit_frame_facts[of st "uid (author msg)" g now, folded st1_def]
  note goc = get_or_create_existing[of st1 g "author msg" c ch uuid_a created now,
               unfolded eqs, OF ptr]
  note p = process_with_channel[OF goc, unfolded eqs auto_response_dms_cong[OF eqs(5)], OF fresh]
  show ?thesis
    by (rule on_message_delivers[OF dm el nb nl]) (simp only: st1_def[symmetric] p)
qed

text \<open>
  Claim C1, what the code does instead. A user whose conversation pointer resolves to a
  channel sends a direct message that passes the eligibility, block and rate-limit
  checks. The listener draws a new thread id on line 443; unless the draw hits an id
  already stored, the result names that new id, a new document with message_count 1 and
  no user is appended to the guild's thread documents, and every document already
  stored, the user's open thread among them, is left with the message_count it had. No
  \<^verbatim>\<open>thread_created\<close> hook is called, and the auto-response is sent again.
\<close>

theorem second_message_opens_a_fresh_document:
  assumes dm: "in_dm msg" "\<not> is_bot (author msg)"
      and el: "eligible_guilds st (author msg) now = g # others"
      and nb: "\<not> is_user_blocked st (uid (author msg)) (Some g)"
      and nl: "\<not> fst (is_rate_limited st (uid (author msg)) g now)"
      and ptr: "active_thread (conversations st (g, uid (author msg))) = Some c" "c \<noteq> 0"
               "channels st g c = Some ch"
      and fresh: "map_of (threads st g) (get_thread_id (uid (author msg)) g uuid_b) = None"
  shows "case on_message_without_command st msg uuid_a uuid_b created TransportOk now of
           (r, st') \<Rightarrow>
             r = Delivered (get_thread_id (uid (author msg)) g uuid_b)
           \<and> threads st' g = threads st g @
                 [(get_thread_id (uid (author msg)) g uuid_b, default_thread\<lparr>message_count := 1\<rparr>)]
           \<and> hook_calls (new_events st st')
                 = map (\<lambda>ob. (MessageProcessed, obs_id ob)) (hooks st MessageProcessed)
           \<and> direct_messages (new_events st st') = auto_response_dms st g (uid (author msg))
           \<and> conversations st' = conversations st"
  unfolding listener_existing_thread[OF assms]
  by (simp add: rate_limit_frame_facts new_events_def hook_calls_append
        hook_calls_hook_events hook_calls_dms direct_messages_append direct_messages_map
        direct_messages_hook_events)

lemma example_message_facts:
  "in_dm (dm_from alice txt t)" "\<not> is_bot (author (dm_from alice txt t))"
  "uid (author (dm_from alice txt t)) = 7" "author (dm_from alice txt t) = alice"
  "\<not> is_bot alice" "uid alice = 7" "uname alice = ''alice''" "discriminator alice = ''0001''"
  by (simp_all add: dm_from_def alice_def)

lemma example_world_facts:
  "eligible_guilds example_world alice (seconds 100000) = [100]"
  "\<not> is_user_blocked example_world 7 (Some 100)"
  "\<not> fst (is_rate_limited example_world 7 100 (seconds 100000))"
  "active_thread (conversations example_world (100, 7)) = None"
  "category_id (guild_conf example_world 100) = Some 500"
  "channels example_world 100 500 = Some \<lparr> ch_name = ''Modmail'', ch_kind = CategoryChannel \<rparr>"
  "threads example_world 100 = []"
  "trace example_world = []"
  "total_threads_created example_world = 0"
  "hooks example_world h = [faulty_observer, quiet_observer]"
  "auto_response_dms example_world 100 7 =
     [(7, AutoResponseText ''Thank you for contacting us! A staff member will be with you shortly.'')]"
  by (simp_all add: eligible_guilds_def check_user_requirements_def is_user_blocked_def
        is_rate_limited_def auto_response_dms_def example_world_def default_guild_def
        default_user_def default_conversation_def alice_def seconds_def Let_def)

theorem first_message_counts_on_a_second_document_witness:
  "fst (on_message_without_command example_world (dm_from alice ''hello'' (seconds 100000))
          1 2 (Created 900) TransportOk (seconds 100000)) = Delivered (7, 100, 2)
   \<and> threads after_first_message 100 =
        [((7, 100, 1), new_thread_doc 7 900 100 (seconds 100000)),
         ((7, 100, 2), default_thread\<lparr>message_count := 1\<rparr>)]
   \<and> hook_calls (trace after_first_message) =
        [(ThreadCreated, 2), (ThreadCreated, 1), (MessageProcessed, 2), (MessageProcessed, 1)]
   \<and> direct_messages (trace after_first_message) =
        [(7, AutoResponseText ''Thank you for contacting us! A staff member will be with you shortly.'')]"
proof -
  let ?m = "dm_from alice ''hello'' (seconds 100000)"
  have dm: "in_dm ?m" "\<not> is_bot (author ?m)"
    by (simp_all add: example_message_facts)
  have el: "eligible_guilds example_world (author ?m) (seconds 100000) = 100 # []"
    and nb: "\<not> is_user_blocked example_world (uid (author ?m)) (Some 100)"
    and nl: "\<not> fst (is_rate_limited example_world (uid (author ?m)) 100 (seconds 100000))"
    and noptr: "active_thread (conversations example_world (100, uid (author ?m))) = None"
    by (simp_all add: example_message_facts example_world_facts)
  have cat: "category_id (guild_conf example_world 100) = Some 500" "(500 :: int) \<noteq> 0"
    "channels example_world 100 500 = Some \<lparr> ch_name = ''Modmail'', ch_kind = CategoryChannel \<rparr>"
    "ch_kind \<lparr> ch_name = ''Modmail'', ch_kind = CategoryChannel \<rparr> = CategoryChannel"
    by (simp_all add: example_world_facts)
  have fresh: "map_of (threads example_world 100) (get_thread_id (uid (author ?m)) 100 1) = None"
    "map_of (threads example_world 100) (get_thread_id (uid (author ?m)) 100 2) = None"
    by (simp_all add: example_world_facts)
  have neq: "(1 :: 32 word) \<noteq> 2" by simp
  note t = first_message_counts_on_a_second_document
             [OF dm el nb nl noptr cat fresh neq, of 900]
  show ?thesis
    using t
    by (simp add: after_first_message_def split_beta new_events_def example_world_facts
          example_message_facts get_thread_id_def faulty_observer_def quiet_observer_def)
qed


lemma after_first_message_eq:
  "after_first_message =
     (with_stamps example_world 100 7 [seconds 100000])
       \<lparr> channels := (channels example_world)(100 := (channels example_world 100)(900 \<mapsto>
             \<lparr> ch_name = ''modmail-alice-0001'', ch_kind = TextChannel \<rparr>)),
         threads := (threads example_world)(100 :=
             [((7, 100, 1), new_thread_doc 7 900 100 (seconds 100000)),
              ((7, 100, 2), default_thread\<lparr>message_count := 1\<rparr>)]),
         conversations := (conversations example_world)((100, 7) :=
             (conversations example_world (100, 7))\<lparr>active_thread := Some 900\<rparr>),
         total_threads_created := 1,
         trace := trace after_first_message \<rparr>"
proof -
  let ?m = "dm_from alice ''hello'' (seconds 100000)"
  have dm: "in_dm ?m" "\<not> is_bot (author ?m)"
    by (simp_all add: example_message_facts)
  have el: "eligible_guilds example_world (author ?m) (seconds 100000) = 100 # []"
    and nb: "\<not> is_user_blocked example_world (uid (author ?m)) (Some 100)"
    and nl: "\<not> fst (is_rate_limited example_world (uid (author ?m)) 100 (seconds 100000))"
    and noptr: "active_thread (conversations example_world (100, uid (author ?m))) = None"
    by (simp_all add: example_message_facts example_world_facts)
  have cat: "category_id (guild_conf example_world 100) = Some 500" "(500 :: int) \<noteq> 0"
    "channels example_world 100 500 = Some \<lparr> ch_name = ''Modmail'', ch_kind = CategoryChannel \<rparr>"
    "ch_kind \<lparr> ch_name = ''Modmail'', ch_kind = CategoryChannel \<rparr> = CategoryChannel"
    by (simp_all add: example_world_facts)
  have fresh: "map_of (threads example_world 100) (get_thread_id (uid (author ?m)) 100 1) = None"
    "map_of (threads example_world 100) (get_thread_id (uid (author ?m)) 100 2) = None"
    by (simp_all add: example_world_facts)
  have neq: "(1 :: 32 word) \<noteq> 2" by simp
  have rl: "snd (is_rate_limited example_world 7 100 (seconds 100000))
              = with_stamps example_world 100 7 [seconds 100000]"
    by (simp add: is_rate_limited_def with_stamps_def example_world_def default_guild_def Let_def)
  show ?thesis
    unfolding after_first_message_def listener_new_thread[OF dm el nb nl noptr cat fresh neq]
    by (simp add: example_message_facts example_world_facts rl get_thread_id_def)
qed

lemma after_first_message_facts:
  "eligible_guilds after_first_message alice (seconds 100060) = [100]"
  "\<not> is_user_blocked after_first_message 7 (Some 100)"
  "\<not> fst (is_rate_limited after_first_message 7 100 (seconds 100060))"
  "active_thread (conversations after_first_message (100, 7)) = Some 900"
  "channels after_first_message 100 900
     = Some \<lparr> ch_name = ''modmail-alice-0001'', ch_kind = TextChannel \<rparr>"
  "threads after_first_message 100 =
     [((7, 100, 1), new_thread_doc 7 900 100 (seconds 100000)),
      ((7, 100, 2), default_thread\<lparr>message_count := 1\<rparr>)]"
  "hooks after_first_message h = [faulty_observer, quiet_observer]"
  "guild_conf after_first_message = guild_conf example_world"
  "auto_response_dms after_first_message 100 7 =
     [(7, AutoResponseText ''Thank you for contacting us! A staff member will be with you shortly.'')]"
  by (subst after_first_message_eq,
      simp add: eligible_guilds_def check_user_requirements_def is_user_blocked_def
        is_rate_limited_def auto_response_dms_def with_stamps_def example_world_def
        default_guild_def default_user_def default_conversation_def alice_def seconds_def
        Let_def)+

theorem second_message_opens_a_fresh_document_witness:
  "fst (on_message_without_command after_first_message (dm_from alice ''again'' (seconds 100060))
          3 4 (Created 901) TransportOk (seconds 100060)) = Delivered (7, 100, 4)
   \<and> threads after_second_message 100 =
        [((7, 100, 1), new_thread_doc 7 900 100 (seconds 100000)),
         ((7, 100, 2), default_thread\<lparr>message_count := 1\<rparr>),
         ((7, 100, 4), default_thread\<lparr>message_count := 1\<rparr>)]
   \<and> hook_calls (new_events after_first_message after_second_message) =
        [(MessageProcessed, 2), (MessageProcessed, 1)]
   \<and> direct_messages (new_events after_first_message after_second_message) =
        [(7, AutoResponseText ''Thank you for contacting us! A staff member will be with you shortly.'')]"
proof -
  let ?m = "dm_from alice ''again'' (seconds 100060)"
  have dm: "in_dm ?m" "\<not> is_bot (author ?m)"
    by (simp_all add: example_message_facts)
  have el: "eligible_guilds after_first_message (author ?m) (seconds 100060) = 100 # []"
    and nb: "\<not> is_user_blocked after_first_message (uid (author ?m)) (Some 100)"
    and nl: "\<not> fst (is_rate_limited after_first_message (uid (author ?m)) 100 (seconds 100060))"
    and ptr: "active_thread (conversations after_first_message (100, uid (author ?m))) = Some 900"
      "(900 :: int) \<noteq> 0"
      "channels after_first_message 100 900
         = Some \<lparr> ch_name = ''modmail-alice-0001'', ch_kind = TextChannel \<rparr>"
    by (simp_all add: example_message_facts after_first_message_facts)
  have fresh: "map_of (threads after_first_message 100) (get_thread_id (uid (author ?m)) 100 4) = None"
    by (simp add: example_message_facts after_first_message_facts get_thread_id_def)
  note t = second_message_opens_a_fresh_document[OF dm el nb nl ptr fresh, of 3 "Created 901"]
  show ?thesis
    using t
    by (simp add: after_second_message_def split_beta after_first_message_facts
          example_message_facts get_thread_id_def faulty_observer_def quiet_observer_def)
qed

section \<open>Properties of closing\<close>

lemma update_thread_data_frame [simp]:
  "guild_conf (update_thread_data st tid g f) = guild_conf st"
  "user_conf (update_thread_data st tid g f) = user_conf st"
  "conversations (update_thread_data st tid g f) = conversations st"
  "hooks (update_thread_data st tid g f) = hooks st"
  "channels (update_thread_data st tid g f) = channels st"
  "guild_me (update_thread_data st tid g f) = guild_me st"
  "bot_guilds (update_thread_data st tid g f) = bot_guilds st"
  "bot_users (update_thread_data st tid g f) = bot_users st"
  "trace (update_thread_data st tid g f) = trace st"
  by (simp_all add: update_thread_data_def Let_def)

lemma thread_doc_update_thread_data:
  "thread_doc (update_thread_data st tid g f) g tid = f (thread_doc st g tid)"
  by (simp add: update_thread_data_def thread_doc_def Let_def update_conv')


lemma close_thread_frame:
  "guild_conf (close_thread st g cid closer reason td now) = guild_conf st"
  "user_conf (close_thread st g cid closer reason td now) = user_conf st"
  "hooks (close_thread st g cid closer reason td now) = hooks st"
  "guild_me (close_thread st g cid closer reason td now) = guild_me st"
  "bot_guilds (close_thread st g cid closer reason td now) = bot_guilds st"
  "bot_users (close_thread st g cid closer reason td now) = bot_users st"
  by (simp_all add: close_thread_def Let_def trigger_hook_trace emit_def
        split: option.split prod.split)

lemma close_thread_threads:
  "threads (close_thread st g cid closer reason td now) =
     threads (case thread_of_channel st g cid of
                None \<Rightarrow> st
              | Some (tid, d) \<Rightarrow> update_thread_data st tid g (closing_update closer reason now))"
  by (simp add: close_thread_def Let_def trigger_hook_trace emit_def closing_update_def
        split: option.split prod.split)

lemma close_thread_hook_calls:
  "hook_calls (new_events st (close_thread st g cid closer reason td now)) =
     map (\<lambda>ob. (ThreadClosed, obs_id ob)) (hooks st ThreadClosed)"
  by (simp add: close_thread_def Let_def trigger_hook_trace emit_def new_events_def
        hook_calls_append hook_calls_hook_events split: option.split prod.split)

lemma find_map_of:
  assumes "distinct (map fst al)" and "find P al = Some (k, v)"
  shows "map_of al k = Some v"
proof -
  from assms(2) have "(k, v) \<in> set al"
    by (auto simp add: find_Some_iff)
  with assms(1) show ?thesis by simp
qed

lemma thread_doc_of_channel:
  assumes "distinct (map fst (threads st g))" and "thread_of_channel st g cid = Some (tid, d)"
  shows "thread_doc st g tid = d"
  using find_map_of[OF assms(1) assms(2)[unfolded thread_of_channel_def]]
  by (simp add: thread_doc_def)

lemma close_thread_doc:
  assumes "distinct (map fst (threads st g))" and "thread_of_channel st g cid = Some (tid, d)"
  shows "thread_doc (close_thread st g cid closer reason td now) g tid =
           closing_update closer reason now d"
proof -
  have "thread_doc (close_thread st g cid closer reason td now) g tid =
          thread_doc (update_thread_data st tid g (closing_update closer reason now)) g tid"
    by (simp add: thread_doc_def close_thread_threads assms(2))
  then show ?thesis
    by (simp add: thread_doc_update_thread_data thread_doc_of_channel[OF assms])
qed

text \<open>
  Claim C3, what the code does instead. \<open>close_thread\<close> does not look at the status.
  Called for the channel of a thread whose document is already closed, it writes
  closed_at, close_reason and closed_by again, from the second call, and calls the
  \<^verbatim>\<open>thread_closed\<close> hooks again.
\<close>

theorem second_close_overwrites:
  assumes "distinct (map fst (threads st g))"
      and "thread_of_channel st g cid = Some (tid, d)"
      and "status d = Closed"
  shows "thread_doc (close_thread st g cid closer reason td now) g tid =
           d\<lparr> closed_at := Some now, close_reason := reason, closed_by := Some closer \<rparr>
       \<and> hook_calls (new_events st (close_thread st g cid closer reason td now)) =
           map (\<lambda>ob. (ThreadClosed, obs_id ob)) (hooks st ThreadClosed)"
  using assms(3)
  by (simp add: close_thread_doc[OF assms(1,2)] close_thread_hook_calls closing_update_def)

text \<open>
  Claim C7. The reason is required and the command comes without one (no reason, or the
  empty string), in a modmail channel that belongs to a thread document with status
  open. The command answers with the request for a reason and stops: the documents, the
  conversation pointers and the channels are as before, the thread found for the channel
  is the same open document, no hook is called and nothing is sent to the user.
\<close>

theorem close_without_reason_is_rejected:
  assumes "require_close_reason (thread_settings (guild_conf st g))"
      and "reason = None \<or> reason = Some []"
      and "channels st g cid = Some ch" and "is_modmail_channel ch"
      and "thread_of_channel st g cid = Some (tid, d)" and "status d = Open"
  shows "modmail_close st g cid invoker reason react now =
           (ValidationError,
            emit (ChannelPost cid (CommandReply ''Please provide a reason for closing this thread.'')) st)
       \<and> threads (snd (modmail_close st g cid invoker reason react now)) = threads st
       \<and> conversations (snd (modmail_close st g cid invoker reason react now)) = conversations st
       \<and> channels (snd (modmail_close st g cid invoker reason react now)) = channels st
       \<and> thread_of_channel (snd (modmail_close st g cid invoker reason react now)) g cid = Some (tid, d)
       \<and> hook_calls (new_events st (snd (modmail_close st g cid invoker reason react now))) = []
       \<and> direct_messages (new_events st (snd (modmail_close st g cid invoker reason react now))) = []"
proof -
  have r: "modmail_close st g cid invoker reason react now =
           (ValidationError,
            emit (ChannelPost cid (CommandReply ''Please provide a reason for closing this thread.'')) st)"
    using assms by (auto simp add: modmail_close_def get_thread_data_from_channel_def)
  show ?thesis
    unfolding r using assms(5) by (simp add: emit_def thread_of_channel_def new_events_def)
qed

lemma after_first_message_thread:
  "thread_of_channel after_first_message 100 900 = Some ((7, 100, 1), first_thread)"
  "distinct (map fst (threads after_first_message 100))"
  "require_close_reason (thread_settings (guild_conf after_first_message 100))"
  "status first_thread = Open"
  by (simp_all add: thread_of_channel_def after_first_message_facts first_thread_def
        new_thread_doc_def default_thread_def example_world_def default_guild_def)

theorem close_without_reason_is_rejected_witness:
  "fst (modmail_close after_first_message 100 900 42 None ReactYes (seconds 100100)) = ValidationError
   \<and> threads (snd (modmail_close after_first_message 100 900 42 None ReactYes (seconds 100100)))
       = threads after_first_message
   \<and> thread_of_channel (snd (modmail_close after_first_message 100 900 42 None ReactYes
       (seconds 100100))) 100 900 = Some ((7, 100, 1), first_thread)
   \<and> fst (modmail_close after_first_message 100 900 42 (Some []) ReactYes (seconds 100100))
       = ValidationError"
proof -
  have ch: "is_modmail_channel \<lparr> ch_name = ''modmail-alice-0001'', ch_kind = TextChannel \<rparr>"
    by (simp add: is_modmail_channel_def)
  have none: "(None :: string option) = None \<or> None = Some []"
    and empty: "Some [] = None \<or> Some [] = Some ([] :: string)" by simp_all
  note t1 = close_without_reason_is_rejected
              [OF after_first_message_thread(3) none after_first_message_facts(5) ch
                  after_first_message_thread(1,4), of 42 ReactYes "seconds 100100"]
  note t2 = close_without_reason_is_rejected
              [OF after_first_message_thread(3) empty after_first_message_facts(5) ch
                  after_first_message_thread(1,4), of 42 ReactYes "seconds 100100"]
  have a: "fst (modmail_close after_first_message 100 900 42 None ReactYes (seconds 100100))
             = ValidationError"
    by (simp add: conjunct1[OF t1])
  have b: "fst (modmail_close after_first_message 100 900 42 (Some []) ReactYes (seconds 100100))
             = ValidationError"
    by (simp add: conjunct1[OF t2])
  from t1 have c: "threads (snd (modmail_close after_first_message 100 900 42 None ReactYes
        (seconds 100100))) = threads after_first_message"
    and d: "thread_of_channel (snd (modmail_close after_first_message 100 900 42 None ReactYes
       (seconds 100100))) 100 900 = Some ((7, 100, 1), first_thread)"
    by blast+
  show ?thesis using a b c d by blast
qed

lemma after_close_thread:
  "thread_of_channel after_close 100 900
     = Some ((7, 100, 1), closing_update 42 (Some ''resolved'') (seconds 100200) first_thread)"
  "distinct (map fst (threads after_close 100))"
  "hooks after_close h = [faulty_observer, quiet_observer]"
  by (simp_all add: after_close_def close_thread_threads close_thread_frame
        after_first_message_thread after_first_message_facts thread_of_channel_def
        update_thread_data_def thread_doc_def Let_def closing_update_def first_thread_def
        new_thread_doc_def default_thread_def)

theorem second_close_overwrites_witness:
  "thread_doc after_close 100 (7, 100, 1) =
     first_thread\<lparr> status := Closed, closed_at := Some (seconds 100200),
       close_reason := Some ''resolved'', closed_by := Some 42 \<rparr>
   \<and> thread_doc after_second_close 100 (7, 100, 1) =
     first_thread\<lparr> status := Closed, closed_at := Some (seconds 110000),
       close_reason := Some ''Auto-closed due to inactivity'', closed_by := Some 1 \<rparr>
   \<and> hook_calls (new_events after_close after_second_close) = [(ThreadClosed, 2), (ThreadClosed, 1)]"
proof -
  have st: "status (closing_update 42 (Some ''resolved'') (seconds 100200) first_thread) = Closed"
    by (simp add: closing_update_def)
  have first: "thread_doc after_close 100 (7, 100, 1) =
     closing_update 42 (Some ''resolved'') (seconds 100200) first_thread"
    using thread_doc_of_channel[OF after_close_thread(2,1)] .
  note t = second_close_overwrites[OF after_close_thread(2,1) st,
             of 1 "Some ''Auto-closed due to inactivity''" first_thread "seconds 110000"]
  show ?thesis
    using t first
    by (simp add: after_second_close_def after_close_thread closing_update_def
          faulty_observer_def quiet_observer_def)
qed

section \<open>Properties of the idle sweep\<close>























text \<open>
  The hypothesis on created_at is needed. The document that the listener writes under
  the id of its second draw is open and has no created_at, and the sweep stops there with
  \<^verbatim>\<open>TypeError\<close>: in the state after user 7's first message it never gets past the
  second document of guild 100.
\<close>

lemma sweep_stops_at_undated_document:
  "\<not> sweep_ready after_first_message 100
   \<and> (case auto_close_threads after_first_message (seconds 200000) of
         Inl (e, st') \<Rightarrow> e = ''TypeError''
       | Inr st' \<Rightarrow> False)"
  by code_simp

end
